theory Spec2Isabelle
  imports Main "HOL-Library.Word"
begin

section \<open>EvalExtendedWrapper: the managed wrapper of the native evaluation engine\<close>

text \<open>
  A shallow embedding of \<^verbatim>\<open>Source/Extensibility/EvalWrapper/EvalExtendedWrapper.cpp\<close>.

  Conventions of the embedding:
  \<^item> the managed \<^verbatim>\<open>int\<close> is a 32-bit word read as two's complement (\<open>sint\<close>); arithmetic
    on it wraps around;
  \<^item> a managed array is a list; \<^verbatim>\<open>gcnew array<T>(n)\<close> gives \<open>n\<close> zero elements and raises
    \<^verbatim>\<open>OverflowException\<close> for a negative \<open>n\<close>; running out of memory is not modelled;
  \<^item> \<^verbatim>\<open>String^\<close>, \<^verbatim>\<open>std::string\<close> and \<^verbatim>\<open>std::wstring\<close> are all \<open>string\<close>, and the
    conversions between them are the identity;
  \<^item> every \<^verbatim>\<open>throw\<close> is a value \<open>Inl\<close> of a sum type;
  \<^item> the list arguments of \<^verbatim>\<open>StartForwardEvaluation\<close> and \<^verbatim>\<open>ForwardPass\<close> can be
    \<^verbatim>\<open>nullptr\<close> (as \<^verbatim>\<open>emitExtended\<close> passes them): they are options. The objects inside a
    list, the array fields of a \<^verbatim>\<open>ValueBuffer\<close> and the other arguments are taken to be
    non-null.
\<close>

type_synonym int32 = "32 word"

subsection \<open>Exceptions\<close>

text \<open>
  The class of a native exception. \<^verbatim>\<open>ExceptionWithCallStack<E>\<close> is a class template of the
  engine's headers (it derives from \<open>E\<close> and adds \<^verbatim>\<open>CallStack()\<close>); the wrapper names three of
  its instances. \<open>other_exception\<close> stands for any other class derived from
  \<^verbatim>\<open>std::exception\<close>, by its name.
\<close>

datatype std_class =
    runtime_error
  | logic_error
  | invalid_argument
  | bad_alloc
  | other_exception string

datatype native_type =
    Plain std_class
  | ExceptionWithCallStack std_class

text \<open>A native exception object: its dynamic type, its message, and its call stack when its
  type is an \<^verbatim>\<open>ExceptionWithCallStack\<close>.\<close>

datatype native_exception =
    Std std_class string
  | Rich std_class string string

fun typeid :: "native_exception \<Rightarrow> native_type" where
  "typeid (Std c msg) = Plain c"
| "typeid (Rich c msg stack) = ExceptionWithCallStack c"

fun what :: "native_exception \<Rightarrow> string" where
  "what (Std c msg) = msg"
| "what (Rich c msg stack) = msg"

fun CallStack :: "native_exception \<Rightarrow> string option" where
  "CallStack (Std c msg) = None"
| "CallStack (Rich c msg stack) = Some stack"

text \<open>
  The managed exceptions the wrapper raises, with the arguments of the constructor calls in
  the source (the classes of \<^verbatim>\<open>CNTKException.h\<close> take a message, and the three specific ones
  a call stack too), and the exceptions the runtime raises by itself.
\<close>

datatype managed_exception =
    ObjectDisposedException string
  | CNTKException string
  | CNTKRuntimeException string string
  | CNTKLogicErrorException string string
  | CNTKInvalidArgumentException string string
  | CNTKBadAllocException string
  | NullReferenceException
  | IndexOutOfRangeException
  | ArgumentOutOfRangeException
  | OverflowException

fun Message :: "managed_exception \<Rightarrow> string option" where
  "Message (ObjectDisposedException msg) = Some msg"
| "Message (CNTKException msg) = Some msg"
| "Message (CNTKRuntimeException msg stack) = Some msg"
| "Message (CNTKLogicErrorException msg stack) = Some msg"
| "Message (CNTKInvalidArgumentException msg stack) = Some msg"
| "Message (CNTKBadAllocException msg) = Some msg"
| "Message e = None"

fun NativeCallStack :: "managed_exception \<Rightarrow> string option" where
  "NativeCallStack (CNTKRuntimeException msg stack) = Some stack"
| "NativeCallStack (CNTKLogicErrorException msg stack) = Some stack"
| "NativeCallStack (CNTKInvalidArgumentException msg stack) = Some stack"
| "NativeCallStack e = None"

text \<open>
  How a call of the wrapper can fail: with a managed exception, with a native exception that
  no handler of the wrapper caught (it leaves the method untranslated), or by calling
  through a null function pointer.
\<close>

datatype failure =
    Managed managed_exception
  | NativeUncaught native_exception
  | NullFunctionPointerCall

text \<open>\<^verbatim>\<open>GetCustomException\<close>: a chain of comparisons of the dynamic type.\<close>

definition GetCustomException :: "native_exception \<Rightarrow> managed_exception" where
  "GetCustomException ex =
     (if typeid ex = ExceptionWithCallStack runtime_error then
        CNTKRuntimeException (what ex) (the (CallStack ex))
      else if typeid ex = ExceptionWithCallStack logic_error then
        CNTKLogicErrorException (what ex) (the (CallStack ex))
      else if typeid ex = ExceptionWithCallStack invalid_argument then
        CNTKInvalidArgumentException (what ex) (the (CallStack ex))
      else if typeid ex = Plain bad_alloc then
        CNTKBadAllocException (what ex)
      else
        CNTKException (what ex))"

subsection \<open>ValueBuffer\<close>

text \<open>\<^verbatim>\<open>gcnew array<T>(n)\<close>: \<open>n\<close> zero elements; a negative \<open>n\<close> raises.\<close>

definition new_array :: "int32 \<Rightarrow> managed_exception + ('a::zero) list" where
  "new_array n = (if sint n < 0 then Inl OverflowException
                  else Inr (replicate (nat (sint n)) 0))"

text \<open>The public fields of \<^verbatim>\<open>ValueBuffer<ElemType>\<close>. The three arrays and \<open>m_size\<close> are
  separate fields: only the constructor relates them.\<close>

record 'a ValueBuffer =
  m_size :: int32
  m_buffer :: "'a list"
  m_indices :: "int32 list"
  m_colIndices :: "int32 list"

text \<open>The constructor \<^verbatim>\<open>ValueBuffer(int size)\<close>, its argument written \<open>n\<close>: three
  allocations, then the size.\<close>

definition ValueBuffer_new :: "int32 \<Rightarrow> managed_exception + ('a::zero) ValueBuffer" where
  "ValueBuffer_new n =
     (case new_array n of
        Inl e \<Rightarrow> Inl e
      | Inr buffer \<Rightarrow>
          (case new_array n of
             Inl e \<Rightarrow> Inl e
           | Inr indices \<Rightarrow>
               (case new_array n of
                  Inl e \<Rightarrow> Inl e
                | Inr colIndices \<Rightarrow>
                    Inr \<lparr>m_size = n, m_buffer = buffer, m_indices = indices,
                         m_colIndices = colIndices\<rparr>)))"

text \<open>What an operation can change of a buffer's storage: the stored size and the lengths
  of the three arrays.\<close>

definition shape :: "'a ValueBuffer \<Rightarrow> int32 \<times> nat \<times> nat \<times> nat" where
  "shape b = (m_size b, length (m_buffer b), length (m_indices b), length (m_colIndices b))"

subsection \<open>VariableLayout and VariableSchema\<close>

datatype DataType = Float32 | Float64

datatype StorageType = Undetermined | Dense | Sparse

text \<open>The values of the enumerators, in the order of their declaration.\<close>

fun DataType_value :: "DataType \<Rightarrow> int" where
  "DataType_value Float32 = 0"
| "DataType_value Float64 = 1"

fun StorageType_value :: "StorageType \<Rightarrow> int" where
  "StorageType_value Undetermined = 0"
| "StorageType_value Dense = 1"
| "StorageType_value Sparse = 2"

record VariableLayout =
  m_name :: string
  m_dataType :: DataType
  m_storageType :: StorageType
  m_numElements :: int32

text \<open>\<^verbatim>\<open>gcnew VariableLayout()\<close>: every field is zero-initialised.\<close>

definition VariableLayout_new :: VariableLayout where
  "VariableLayout_new =
     \<lparr>m_name = [], m_dataType = Float32, m_storageType = Undetermined, m_numElements = 0\<rparr>"

text \<open>\<^verbatim>\<open>VariableSchema\<close> is a \<^verbatim>\<open>List<VariableLayout^>\<close>.\<close>

type_synonym VariableSchema = "VariableLayout list"

text \<open>
  The managed heap, as far as the buffer factory touches it: the sizes of the
  \<^verbatim>\<open>ValueBuffer\<close> objects constructed so far, oldest first.
\<close>

type_synonym allocations = "int32 list"

text \<open>
  The loop of \<^verbatim>\<open>CreateBuffers(maxLengths)\<close>, from index \<open>i\<close> on: \<open>layouts\<close> and \<open>lengths\<close> are
  the entries of the schema and of \<open>maxLengths\<close> not yet visited, \<open>buffers\<close> the list being
  filled. \<^verbatim>\<open>maxLengths[i]\<close> past the end of the list raises.
\<close>

fun CreateBuffers_loop ::
  "VariableLayout list \<Rightarrow> int32 list \<Rightarrow> ('a::zero) ValueBuffer list \<Rightarrow> allocations \<Rightarrow>
     (managed_exception + 'a ValueBuffer list) \<times> allocations"
where
  "CreateBuffers_loop [] lengths buffers heap = (Inr buffers, heap)"
| "CreateBuffers_loop (layout # layouts) [] buffers heap =
     (Inl ArgumentOutOfRangeException, heap)"
| "CreateBuffers_loop (layout # layouts) (maxLength # lengths) buffers heap =
     (case ValueBuffer_new (m_numElements layout * maxLength) of
        Inl e \<Rightarrow> (Inl e, heap)
      | Inr b \<Rightarrow>
          CreateBuffers_loop layouts lengths (buffers @ [b])
            (heap @ [m_numElements layout * maxLength]))"

definition CreateBuffers ::
  "VariableSchema \<Rightarrow> int32 list \<Rightarrow> allocations \<Rightarrow>
     (managed_exception + ('a::zero) ValueBuffer list) \<times> allocations"
where
  "CreateBuffers this maxLengths heap =
     (if length maxLengths \<noteq> length this then
        (Inl (CNTKRuntimeException ''Expected max lengths for all variables.'' []), heap)
      else CreateBuffers_loop this maxLengths [] heap)"

text \<open>The loop of \<^verbatim>\<open>CreateBuffers()\<close>, which creates buffers of the minimum size.\<close>

fun CreateBuffers0_loop ::
  "VariableLayout list \<Rightarrow> ('a::zero) ValueBuffer list \<Rightarrow> allocations \<Rightarrow>
     (managed_exception + 'a ValueBuffer list) \<times> allocations"
where
  "CreateBuffers0_loop [] buffers heap = (Inr buffers, heap)"
| "CreateBuffers0_loop (layout # layouts) buffers heap =
     (case ValueBuffer_new (m_numElements layout) of
        Inl e \<Rightarrow> (Inl e, heap)
      | Inr b \<Rightarrow>
          CreateBuffers0_loop layouts (buffers @ [b]) (heap @ [m_numElements layout]))"

definition CreateBuffers0 ::
  "VariableSchema \<Rightarrow> allocations \<Rightarrow>
     (managed_exception + ('a::zero) ValueBuffer list) \<times> allocations"
where
  "CreateBuffers0 this heap = CreateBuffers0_loop this [] heap"

subsection \<open>The native engine\<close>

text \<open>
  The native \<^verbatim>\<open>VariableLayout\<close> of \<^verbatim>\<open>Eval.h\<close>, as the wrapper reads it: the two enumerations
  are read through a cast to \<^verbatim>\<open>int\<close>, the element count is a \<^verbatim>\<open>size_t\<close>.
\<close>

record NativeVariableLayout =
  n_name :: string
  n_dataType :: int32
  n_storageType :: int32
  n_numElements :: "64 word"

text \<open>\<^verbatim>\<open>VectorRef::InitFrom(pointer, capacity, size)\<close>: the memory the pointer gives access to
  (the managed array it points into) and the two numbers passed.\<close>

record 'a VectorRef =
  ref_vector :: "'a list"
  ref_capacity :: int32
  ref_size :: int32

record 'a NativeValueBuffer =
  nv_buffer :: "'a VectorRef"
  nv_indices :: "int32 VectorRef"
  nv_colIndices :: "int32 VectorRef"

text \<open>What the engine stores through the pointers of one buffer during a forward pass:
  pairs of an offset and the element stored there, in the order of the stores.\<close>

record 'a stores =
  st_buffer :: "(nat \<times> 'a) list"
  st_indices :: "(nat \<times> int32) list"
  st_colIndices :: "(nat \<times> int32) list"

text \<open>
  The engine is not part of this file: \<^verbatim>\<open>IEvaluateModelExtended<ElemType>\<close> is an abstract
  class, and the wrapper calls its virtual methods. Its behaviour is a parameter of the
  model: \<open>'e\<close> is the state of an engine object, and every method maps a state and its
  arguments to a result or a native exception, and a new state. \<^verbatim>\<open>ForwardPass\<close> also gives
  the stores into the input and output buffers. \<^verbatim>\<open>Destroy\<close> frees the object and is taken
  not to throw.
\<close>

record ('e, 'a) IEvaluateModelExtended =
  eval_CreateNetwork :: "'e \<Rightarrow> string \<Rightarrow> (native_exception + unit) \<times> 'e"
  eval_GetOutputSchema :: "'e \<Rightarrow> (native_exception + NativeVariableLayout list) \<times> 'e"
  eval_GetInputSchema :: "'e \<Rightarrow> (native_exception + NativeVariableLayout list) \<times> 'e"
  eval_StartForwardEvaluation :: "'e \<Rightarrow> string list \<Rightarrow> (native_exception + unit) \<times> 'e"
  eval_ForwardPass ::
    "'e \<Rightarrow> 'a NativeValueBuffer list \<Rightarrow> 'a NativeValueBuffer list \<Rightarrow>
       (native_exception + unit) \<times> 'e \<times> 'a stores list \<times> 'a stores list"

text \<open>The calls of the engine's methods, for stating which of them an operation made.\<close>

datatype native_call =
    CreateNetwork_call string
  | GetOutputSchema_call
  | GetInputSchema_call
  | StartForwardEvaluation_call "string list"
  | ForwardPass_call
  | Destroy_call

text \<open>
  The process at construction time: which libraries \<^verbatim>\<open>LoadLibrary\<close> finds, and which
  symbols \<^verbatim>\<open>GetProcAddress\<close> resolves in them. A resolved factory either stores a new
  engine object through its argument or throws.
\<close>

record ('m, 'e) process =
  LoadLibrary :: "string \<Rightarrow> 'm option"
  GetProcAddress :: "'m \<Rightarrow> string \<Rightarrow> (native_exception + 'e) option"

subsection \<open>IEvaluateModelExtendedManaged\<close>

text \<open>The wrapper object: the pointer \<open>m_eval\<close> to the engine object it owns (\<open>None\<close> is
  \<^verbatim>\<open>nullptr\<close>), and the engine calls made through it so far.\<close>

record 'e IEvaluateModelExtendedManaged =
  m_eval :: "'e option"
  native_calls :: "native_call list"

definition disposed_error :: failure where
  "disposed_error = Managed (ObjectDisposedException ''Object has been disposed.'')"

text \<open>The constructor. The result of \<^verbatim>\<open>GetProcAddress\<close> is called without a test.\<close>

definition IEvaluateModelExtendedManaged_new ::
  "('m, 'e) process \<Rightarrow> string \<Rightarrow> failure + 'e IEvaluateModelExtendedManaged"
where
  "IEvaluateModelExtendedManaged_new env funcName =
     (case LoadLibrary env ''evaldll.dll'' of
        None \<Rightarrow> Inl (Managed (CNTKException (''Cannot find library: '' @ ''evaldll.dll'')))
      | Some hModule \<Rightarrow>
          (case GetProcAddress env hModule funcName of
             None \<Rightarrow> Inl NullFunctionPointerCall
           | Some getEvalProc \<Rightarrow>
               (case getEvalProc of
                  Inl ex \<Rightarrow> Inl (Managed (CNTKException (what ex)))
                | Inr p_eval \<Rightarrow> Inr \<lparr>m_eval = Some p_eval, native_calls = []\<rparr>)))"

definition IEvaluateModelExtendedManagedF_new ::
  "('m, 'e) process \<Rightarrow> failure + 'e IEvaluateModelExtendedManaged"
where
  "IEvaluateModelExtendedManagedF_new env =
     IEvaluateModelExtendedManaged_new env ''GetEvalExtendedF''"

definition IEvaluateModelExtendedManagedD_new ::
  "('m, 'e) process \<Rightarrow> failure + 'e IEvaluateModelExtendedManaged"
where
  "IEvaluateModelExtendedManagedD_new env =
     IEvaluateModelExtendedManaged_new env ''GetEvalExtendedD''"

text \<open>An engine call through \<open>m_eval\<close>: the object's new state and the call are recorded.\<close>

definition called ::
  "'e IEvaluateModelExtendedManaged \<Rightarrow> native_call \<Rightarrow> 'e \<Rightarrow> 'e IEvaluateModelExtendedManaged"
where
  "called this c e' = this\<lparr>m_eval := Some e', native_calls := native_calls this @ [c]\<rparr>"

definition CreateNetwork ::
  "('e, 'a) IEvaluateModelExtended \<Rightarrow> 'e IEvaluateModelExtendedManaged \<Rightarrow> string \<Rightarrow>
     (failure + unit) \<times> 'e IEvaluateModelExtendedManaged"
where
  "CreateNetwork eng this networkDescription =
     (case m_eval this of
        None \<Rightarrow> (Inl disposed_error, this)
      | Some e \<Rightarrow>
          (case eval_CreateNetwork eng e networkDescription of
             (Inl ex, e') \<Rightarrow>
               (Inl (Managed (GetCustomException ex)),
                called this (CreateNetwork_call networkDescription) e')
           | (Inr u, e') \<Rightarrow>
               (Inr (), called this (CreateNetwork_call networkDescription) e')))"

subsection \<open>The schema queries\<close>

text \<open>Decimal digits of a number, for the \<^verbatim>\<open>{0}\<close> of \<^verbatim>\<open>String::Format\<close>.\<close>

fun digits_of_nat :: "nat \<Rightarrow> string" where
  "digits_of_nat n =
     (if n < 10 then [''0123456789'' ! n]
      else digits_of_nat (n div 10) @ [''0123456789'' ! (n mod 10)])"

definition Int32_ToString :: "int32 \<Rightarrow> string" where
  "Int32_ToString i =
     (if sint i < 0 then ''-'' @ digits_of_nat (nat (- sint i)) else digits_of_nat (nat (sint i)))"

text \<open>\<^verbatim>\<open>GetDataType\<close> and \<^verbatim>\<open>GetStorageType\<close>: a \<^verbatim>\<open>switch\<close> on the value cast to \<^verbatim>\<open>int\<close>.\<close>

definition GetDataType :: "int32 \<Rightarrow> managed_exception + DataType" where
  "GetDataType dataType =
     (if sint dataType = DataType_value Float32 then Inr Float32
      else if sint dataType = DataType_value Float64 then Inr Float64
      else Inl (CNTKRuntimeException
                 (''Cannot convert native DataType with value: '' @ Int32_ToString dataType @
                  '' to corresponding managed DataType.'') []))"

definition GetStorageType :: "int32 \<Rightarrow> managed_exception + StorageType" where
  "GetStorageType storageType =
     (if sint storageType = StorageType_value Dense then Inr Dense
      else if sint storageType = StorageType_value Sparse then Inr Sparse
      else if sint storageType = StorageType_value Undetermined then Inr Undetermined
      else Inl (CNTKRuntimeException
                 (''Cannot convert native StorageType with value: '' @
                  Int32_ToString storageType @
                  '' to corresponding managed StorageType.'') []))"

text \<open>
  The loop \<^verbatim>\<open>for (auto& lay : outputLayout)\<close> of \<^verbatim>\<open>GetOutputSchema\<close>, which is also the loop
  of \<^verbatim>\<open>GetInputSchema\<close>: \<open>schema\<close> is the \<^verbatim>\<open>VariableSchema\<close> being filled. The body assigns
  three fields of the new layout: the name, the data type and the element count (a
  \<^verbatim>\<open>size_t\<close> stored into an \<^verbatim>\<open>int\<close>). It does not assign \<open>m_storageType\<close>, and nothing in the
  file calls \<open>GetStorageType\<close>.
\<close>

fun schema_loop ::
  "NativeVariableLayout list \<Rightarrow> VariableSchema \<Rightarrow> managed_exception + VariableSchema"
where
  "schema_loop [] schema = Inr schema"
| "schema_loop (lay # rest) schema =
     (case GetDataType (n_dataType lay) of
        Inl e \<Rightarrow> Inl e
      | Inr dataType \<Rightarrow>
          schema_loop rest
            (schema @ [VariableLayout_new\<lparr>m_name := n_name lay, m_dataType := dataType,
                                          m_numElements := ucast (n_numElements lay)\<rparr>]))"

text \<open>Neither query has a handler around the engine call: a native exception leaves the
  method as it is.\<close>

definition GetOutputSchema ::
  "('e, 'a) IEvaluateModelExtended \<Rightarrow> 'e IEvaluateModelExtendedManaged \<Rightarrow>
     (failure + VariableSchema) \<times> 'e IEvaluateModelExtendedManaged"
where
  "GetOutputSchema eng this =
     (case m_eval this of
        None \<Rightarrow> (Inl disposed_error, this)
      | Some e \<Rightarrow>
          (case eval_GetOutputSchema eng e of
             (Inl ex, e') \<Rightarrow> (Inl (NativeUncaught ex), called this GetOutputSchema_call e')
           | (Inr outputLayout, e') \<Rightarrow>
               (case schema_loop outputLayout [] of
                  Inl x \<Rightarrow> (Inl (Managed x), called this GetOutputSchema_call e')
                | Inr outputSchema \<Rightarrow>
                    (Inr outputSchema, called this GetOutputSchema_call e'))))"

definition GetInputSchema ::
  "('e, 'a) IEvaluateModelExtended \<Rightarrow> 'e IEvaluateModelExtendedManaged \<Rightarrow>
     (failure + VariableSchema) \<times> 'e IEvaluateModelExtendedManaged"
where
  "GetInputSchema eng this =
     (case m_eval this of
        None \<Rightarrow> (Inl disposed_error, this)
      | Some e \<Rightarrow>
          (case eval_GetInputSchema eng e of
             (Inl ex, e') \<Rightarrow> (Inl (NativeUncaught ex), called this GetInputSchema_call e')
           | (Inr inputLayout, e') \<Rightarrow>
               (case schema_loop inputLayout [] of
                  Inl x \<Rightarrow> (Inl (Managed x), called this GetInputSchema_call e')
                | Inr inputSchema \<Rightarrow>
                    (Inr inputSchema, called this GetInputSchema_call e'))))"

subsection \<open>StartForwardEvaluation and ForwardPass\<close>

text \<open>\<^verbatim>\<open>StartForwardEvaluation\<close>: the names are copied into a native vector (\<^verbatim>\<open>for each\<close> over a
  null list raises), and the engine is called outside any \<^verbatim>\<open>try\<close> block.\<close>

definition StartForwardEvaluation ::
  "('e, 'a) IEvaluateModelExtended \<Rightarrow> 'e IEvaluateModelExtendedManaged \<Rightarrow>
     string list option \<Rightarrow> (failure + unit) \<times> 'e IEvaluateModelExtendedManaged"
where
  "StartForwardEvaluation eng this outputs =
     (case m_eval this of
        None \<Rightarrow> (Inl disposed_error, this)
      | Some e \<Rightarrow>
          (case outputs of
             None \<Rightarrow> (Inl (Managed NullReferenceException), this)
           | Some outputNodeNames \<Rightarrow>
               (case eval_StartForwardEvaluation eng e outputNodeNames of
                  (Inl ex, e') \<Rightarrow>
                    (Inl (NativeUncaught ex),
                     called this (StartForwardEvaluation_call outputNodeNames) e')
                | (Inr u, e') \<Rightarrow>
                    (Inr (), called this (StartForwardEvaluation_call outputNodeNames) e'))))"

text \<open>
  The body of the two \<^verbatim>\<open>for each\<close> loops of \<^verbatim>\<open>ForwardPass\<close>: the address of element 0 of each
  of the three arrays is taken (an empty array has no element 0: the runtime raises), then
  the native buffer is pointed at them, with \<open>m_size\<close> as size and capacity.
\<close>

definition InitFrom :: "'b list \<Rightarrow> int32 \<Rightarrow> int32 \<Rightarrow> 'b VectorRef" where
  "InitFrom p capacity sz = \<lparr>ref_vector = p, ref_capacity = capacity, ref_size = sz\<rparr>"

definition pin_item :: "'a ValueBuffer \<Rightarrow> managed_exception + 'a NativeValueBuffer" where
  "pin_item item =
     (if m_buffer item = [] then Inl IndexOutOfRangeException
      else if m_indices item = [] then Inl IndexOutOfRangeException
      else if m_colIndices item = [] then Inl IndexOutOfRangeException
      else Inr \<lparr>nv_buffer = InitFrom (m_buffer item) (m_size item) (m_size item),
                nv_indices = InitFrom (m_indices item) (m_size item) (m_size item),
                nv_colIndices = InitFrom (m_colIndices item) (m_size item) (m_size item)\<rparr>)"

fun pin_loop ::
  "'a ValueBuffer list \<Rightarrow> 'a NativeValueBuffer list \<Rightarrow>
     managed_exception + 'a NativeValueBuffer list"
where
  "pin_loop [] refs = Inr refs"
| "pin_loop (item # items) refs =
     (case pin_item item of
        Inl e \<Rightarrow> Inl e
      | Inr vb \<Rightarrow> pin_loop items (refs @ [vb]))"

text \<open>
  The engine writes into the managed arrays through the pointers. A store at an offset
  inside the array replaces that element; the memory past the end of the array is not part
  of the model (the wrapper checks no bounds). The buffers are the caller's objects: the
  model returns them with their new contents.
\<close>

definition store_all :: "(nat \<times> 'b) list \<Rightarrow> 'b list \<Rightarrow> 'b list" where
  "store_all ws xs = fold (\<lambda>(i, v) ys. ys[i := v]) ws xs"

definition apply_stores :: "'a stores \<Rightarrow> 'a ValueBuffer \<Rightarrow> 'a ValueBuffer" where
  "apply_stores w b =
     b\<lparr>m_buffer := store_all (st_buffer w) (m_buffer b),
       m_indices := store_all (st_indices w) (m_indices b),
       m_colIndices := store_all (st_colIndices w) (m_colIndices b)\<rparr>"

fun written :: "'a stores list \<Rightarrow> 'a ValueBuffer list \<Rightarrow> 'a ValueBuffer list" where
  "written ws [] = []"
| "written [] (b # bs) = b # bs"
| "written (w # ws) (b # bs) = apply_stores w b # written ws bs"

definition ForwardPass ::
  "('e, 'a) IEvaluateModelExtended \<Rightarrow> 'e IEvaluateModelExtendedManaged \<Rightarrow>
     'a ValueBuffer list option \<Rightarrow> 'a ValueBuffer list option \<Rightarrow>
     (failure + unit) \<times> 'e IEvaluateModelExtendedManaged \<times>
     'a ValueBuffer list option \<times> 'a ValueBuffer list option"
where
  "ForwardPass eng this inputs outputs =
     (case m_eval this of
        None \<Rightarrow> (Inl disposed_error, this, inputs, outputs)
      | Some e \<Rightarrow>
          (case inputs of
             None \<Rightarrow> (Inl (Managed NullReferenceException), this, inputs, outputs)
           | Some ins \<Rightarrow>
               (case pin_loop ins [] of
                  Inl x \<Rightarrow> (Inl (Managed x), this, inputs, outputs)
                | Inr stdInputs \<Rightarrow>
                    (case outputs of
                       None \<Rightarrow> (Inl (Managed NullReferenceException), this, inputs, outputs)
                     | Some outs \<Rightarrow>
                         (case pin_loop outs [] of
                            Inl x \<Rightarrow> (Inl (Managed x), this, inputs, outputs)
                          | Inr stdOutputs \<Rightarrow>
                              (case eval_ForwardPass eng e stdInputs stdOutputs of
                                 (Inl ex, e', win, wout) \<Rightarrow>
                                   (Inl (Managed (GetCustomException ex)),
                                    called this ForwardPass_call e',
                                    Some (written win ins), Some (written wout outs))
                               | (Inr u, e', win, wout) \<Rightarrow>
                                   (Inr (),
                                    called this ForwardPass_call e',
                                    Some (written win ins), Some (written wout outs))))))))"

subsection \<open>Teardown\<close>

text \<open>The finalizer \<^verbatim>\<open>!IEvaluateModelExtendedManaged\<close> and the destructor
  \<^verbatim>\<open>~IEvaluateModelExtendedManaged\<close>, which the runtime exposes as \<^verbatim>\<open>Dispose\<close>.\<close>

definition finalizer :: "'e IEvaluateModelExtendedManaged \<Rightarrow> 'e IEvaluateModelExtendedManaged" where
  "finalizer this =
     (if m_eval this \<noteq> None then
        this\<lparr>m_eval := None, native_calls := native_calls this @ [Destroy_call]\<rparr>
      else this)"

definition destructor :: "'e IEvaluateModelExtendedManaged \<Rightarrow> 'e IEvaluateModelExtendedManaged" where
  "destructor this = (if m_eval this = None then this else finalizer this)"

text \<open>The two ways teardown is invoked: the explicit release (the destructor), and the
  finalizer that the collector runs. \<open>teardown\<close> runs a sequence of them on an object.\<close>

datatype teardown_call = Dispose | Finalize

fun teardown ::
  "teardown_call list \<Rightarrow> 'e IEvaluateModelExtendedManaged \<Rightarrow> 'e IEvaluateModelExtendedManaged"
where
  "teardown [] this = this"
| "teardown (Dispose # cs) this = teardown cs (destructor this)"
| "teardown (Finalize # cs) this = teardown cs (finalizer this)"

definition Destroy_count :: "native_call list \<Rightarrow> nat" where
  "Destroy_count cs = length (filter (\<lambda>c. c = Destroy_call) cs)"

subsection \<open>A concrete engine, for evaluating the model\<close>

text \<open>
  An engine whose state counts the forward passes made. It rejects an empty network
  description, has one dense output \<open>out\<close> of 3 elements and one sparse input \<open>features\<close> of
  2 elements, knows no output node but \<open>out\<close>, and stores 7 into element 0 of every output
  buffer.
\<close>

definition example_engine :: "(nat, int) IEvaluateModelExtended" where
  "example_engine =
     \<lparr>eval_CreateNetwork = (\<lambda>e d.
        if d = [] then
          (Inl (Rich invalid_argument ''empty network description'' ''at CreateNetwork''), e)
        else (Inr (), e)),
      eval_GetOutputSchema = (\<lambda>e.
        (Inr [\<lparr>n_name = ''out'', n_dataType = 0, n_storageType = 1, n_numElements = 3\<rparr>], e)),
      eval_GetInputSchema = (\<lambda>e.
        (Inr [\<lparr>n_name = ''features'', n_dataType = 0, n_storageType = 2,
               n_numElements = 2\<rparr>], e)),
      eval_StartForwardEvaluation = (\<lambda>e names.
        if names = [''out''] then (Inr (), e)
        else (Inl (Rich runtime_error ''unknown output node'' ''at StartForwardEvaluation''),
              e)),
      eval_ForwardPass = (\<lambda>e ins outs.
        (Inr (), Suc e,
         map (\<lambda>b. \<lparr>st_buffer = [], st_indices = [], st_colIndices = []\<rparr>) ins,
         map (\<lambda>b. \<lparr>st_buffer = [(0, 7)], st_indices = [], st_colIndices = []\<rparr>) outs))\<rparr>"

text \<open>A wrapper object that owns an engine in state 0.\<close>

definition example_instance :: "nat IEvaluateModelExtendedManaged" where
  "example_instance = \<lparr>m_eval = Some 0, native_calls = []\<rparr>"

text \<open>A process in which \<^verbatim>\<open>evaldll.dll\<close> loads and exports the factory of the \<^verbatim>\<open>double\<close>
  engine only.\<close>

definition example_process :: "(nat, nat) process" where
  "example_process =
     \<lparr>LoadLibrary = (\<lambda>name. if name = ''evaldll.dll'' then Some 1 else None),
      GetProcAddress = (\<lambda>hModule func.
        if hModule = 1 \<and> func = ''GetEvalExtendedD'' then Some (Inr 0) else None)\<rparr>"

definition layout_of_count :: "int32 \<Rightarrow> VariableLayout" where
  "layout_of_count n = VariableLayout_new\<lparr>m_numElements := n\<rparr>"

text \<open>The buffer that \<open>ValueBuffer_new n\<close> builds for \<open>n \<ge> 0\<close>, and what it means for a buffer
  to have size \<open>k\<close>: the stored size and the lengths of the three arrays are all \<open>k\<close>.\<close>

definition zero_buffer :: "int32 \<Rightarrow> ('a::zero) ValueBuffer" where
  "zero_buffer n =
     \<lparr>m_size = n, m_buffer = replicate (nat (sint n)) 0,
      m_indices = replicate (nat (sint n)) 0, m_colIndices = replicate (nat (sint n)) 0\<rparr>"

definition has_size :: "'a ValueBuffer \<Rightarrow> int \<Rightarrow> bool" where
  "has_size b k \<longleftrightarrow>
     sint (m_size b) = k \<and> int (length (m_buffer b)) = k \<and>
     int (length (m_indices b)) = k \<and> int (length (m_colIndices b)) = k"

section \<open>Properties\<close>

subsection \<open>Operations on a disposed object\<close>

text \<open>
  Claim C1. Teardown leaves \<open>m_eval\<close> null, and on an object whose \<open>m_eval\<close> is null each of
  \<^verbatim>\<open>CreateNetwork\<close>, \<^verbatim>\<open>GetInputSchema\<close>, \<^verbatim>\<open>GetOutputSchema\<close>, \<^verbatim>\<open>StartForwardEvaluation\<close> and
  \<^verbatim>\<open>ForwardPass\<close> raises \<^verbatim>\<open>ObjectDisposedException\<close>, whatever its arguments (null lists
  included), and changes nothing: the object, with the record of its engine calls, and the
  buffers are returned as they were.
\<close>

theorem disposed_operations_fail:
  "m_eval (destructor this0) = None \<and>
   (m_eval this = None \<longrightarrow>
      CreateNetwork eng this networkDescription =
        (Inl (Managed (ObjectDisposedException ''Object has been disposed.'')), this) \<and>
      GetInputSchema eng this =
        (Inl (Managed (ObjectDisposedException ''Object has been disposed.'')), this) \<and>
      GetOutputSchema eng this =
        (Inl (Managed (ObjectDisposedException ''Object has been disposed.'')), this) \<and>
      StartForwardEvaluation eng this names =
        (Inl (Managed (ObjectDisposedException ''Object has been disposed.'')), this) \<and>
      ForwardPass eng this inputs outputs =
        (Inl (Managed (ObjectDisposedException ''Object has been disposed.'')), this,
         inputs, outputs))"
  by (simp add: destructor_def finalizer_def CreateNetwork_def GetInputSchema_def
      GetOutputSchema_def StartForwardEvaluation_def ForwardPass_def disposed_error_def)

theorem disposed_operations_fail_witness:
  "m_eval (destructor example_instance) = None \<and>
   CreateNetwork example_engine (destructor example_instance) ''net'' =
     (Inl (Managed (ObjectDisposedException ''Object has been disposed.'')),
      destructor example_instance) \<and>
   GetInputSchema example_engine (destructor example_instance) =
     (Inl (Managed (ObjectDisposedException ''Object has been disposed.'')),
      destructor example_instance) \<and>
   StartForwardEvaluation example_engine (destructor example_instance) None =
     (Inl (Managed (ObjectDisposedException ''Object has been disposed.'')),
      destructor example_instance) \<and>
   ForwardPass example_engine (destructor example_instance) None None =
     (Inl (Managed (ObjectDisposedException ''Object has been disposed.'')),
      destructor example_instance, None, None)"
  using disposed_operations_fail
    [of example_instance "destructor example_instance" example_engine "''net''" None None None]
  by simp

subsection \<open>Exception translation\<close>

text \<open>
  Claim C2, as the code has it. \<open>GetCustomException\<close> maps
  \<^verbatim>\<open>ExceptionWithCallStack<runtime_error>\<close>, \<^verbatim>\<open>ExceptionWithCallStack<logic_error>\<close> and
  \<^verbatim>\<open>ExceptionWithCallStack<invalid_argument>\<close> to the runtime, logic and invalid-argument
  exceptions, \<^verbatim>\<open>bad_alloc\<close> to the out-of-memory exception, and an exception of any other
  dynamic type to the generic \<^verbatim>\<open>CNTKException\<close>. The message is always the native message.
  The call stack is attached exactly for the three types named first, and is then the
  native call stack; an exception of another type that carries a call stack loses it.
\<close>

theorem GetCustomException_mapping:
  "GetCustomException (Rich runtime_error msg stack) = CNTKRuntimeException msg stack \<and>
   GetCustomException (Rich logic_error msg stack) = CNTKLogicErrorException msg stack \<and>
   GetCustomException (Rich invalid_argument msg stack) =
     CNTKInvalidArgumentException msg stack \<and>
   GetCustomException (Std bad_alloc msg) = CNTKBadAllocException msg \<and>
   (typeid ex \<notin> {ExceptionWithCallStack runtime_error, ExceptionWithCallStack logic_error,
                 ExceptionWithCallStack invalid_argument, Plain bad_alloc} \<longrightarrow>
      GetCustomException ex = CNTKException (what ex)) \<and>
   Message (GetCustomException ex) = Some (what ex) \<and>
   NativeCallStack (GetCustomException ex) =
     (if typeid ex \<in> {ExceptionWithCallStack runtime_error, ExceptionWithCallStack logic_error,
                      ExceptionWithCallStack invalid_argument}
      then CallStack ex else None)"
  by (cases ex) (auto simp: GetCustomException_def)

theorem GetCustomException_mapping_witness:
  "typeid (Std runtime_error ''plain'') \<notin>
     {ExceptionWithCallStack runtime_error, ExceptionWithCallStack logic_error,
      ExceptionWithCallStack invalid_argument, Plain bad_alloc} \<and>
   GetCustomException (Std runtime_error ''plain'') = CNTKException ''plain'' \<and>
   GetCustomException (Rich runtime_error ''failed'' ''at f'') =
     CNTKRuntimeException ''failed'' ''at f'' \<and>
   NativeCallStack (GetCustomException (Rich logic_error ''failed'' ''at f'')) = Some ''at f''"
  using GetCustomException_mapping [of "''failed''" "''at f''" "Std runtime_error ''plain''"]
    GetCustomException_mapping [of "''failed''" "''at f''" "Rich logic_error ''failed'' ''at f''"]
  by simp

text \<open>
  Claim C2 as stated fails: an \<^verbatim>\<open>ExceptionWithCallStack<out_of_range>\<close> carries a call stack,
  and the managed exception made from it has none.
\<close>

theorem GetCustomException_drops_call_stack:
  "CallStack (Rich (other_exception ''out_of_range'') ''bad index'' ''at f'') = Some ''at f'' \<and>
   GetCustomException (Rich (other_exception ''out_of_range'') ''bad index'' ''at f'') =
     CNTKException ''bad index'' \<and>
   NativeCallStack
     (GetCustomException (Rich (other_exception ''out_of_range'') ''bad index'' ''at f'')) = None"
  by (simp add: GetCustomException_def)

subsection \<open>The schema queries\<close>

text \<open>What the conversion loop gives when it succeeds: one layout per native entry, in the
  native order, with the storage type left at its initial value.\<close>

lemma schema_loop_Inr:
  "schema_loop lays schema = Inr schema' \<Longrightarrow>
   schema' = schema @
     map (\<lambda>lay. \<lparr>m_name = n_name lay,
                  m_dataType = (if sint (n_dataType lay) = 0 then Float32 else Float64),
                  m_storageType = Undetermined,
                  m_numElements = ucast (n_numElements lay)\<rparr>) lays"
proof (induction lays arbitrary: schema)
  case Nil
  then show ?case by simp
next
  case (Cons lay lays)
  let ?dt = "if sint (n_dataType lay) = 0 then Float32 else Float64"
  let ?l = "\<lparr>m_name = n_name lay, m_dataType = ?dt, m_storageType = Undetermined,
             m_numElements = ucast (n_numElements lay)\<rparr>"
  from Cons.prems have rest: "schema_loop lays (schema @ [?l]) = Inr schema'"
    by (auto simp: GetDataType_def VariableLayout_new_def split: sum.splits if_splits)
  from Cons.IH [OF rest] show ?case by simp
qed

lemma GetOutputSchema_storage_type:
  "GetOutputSchema eng this = (Inr schema, this') \<Longrightarrow> l \<in> set schema \<Longrightarrow>
   m_storageType l = Undetermined"
  by (auto simp: GetOutputSchema_def split: option.splits prod.splits sum.splits
      dest!: schema_loop_Inr)

lemma GetInputSchema_storage_type:
  "GetInputSchema eng this = (Inr schema, this') \<Longrightarrow> l \<in> set schema \<Longrightarrow>
   m_storageType l = Undetermined"
  by (auto simp: GetInputSchema_def split: option.splits prod.splits sum.splits
      dest!: schema_loop_Inr)

text \<open>
  Claim C3 does not hold of the code. The engine of the example reports the output \<open>out\<close>
  with storage type 1, which \<open>GetStorageType\<close> reads as \<open>Dense\<close>, and the input \<open>features\<close>
  with storage type 2, \<open>Sparse\<close>; the schemas that \<open>GetOutputSchema\<close> and \<open>GetInputSchema\<close>
  return have the names, data types and element counts of the native entries, and
  \<open>Undetermined\<close> as storage type.
\<close>

theorem schema_queries_leave_storage_type:
  "eval_GetOutputSchema example_engine 0 =
     (Inr [\<lparr>n_name = ''out'', n_dataType = 0, n_storageType = 1, n_numElements = 3\<rparr>], 0) \<and>
   GetStorageType 1 = Inr Dense \<and>
   GetOutputSchema example_engine example_instance =
     (Inr [\<lparr>m_name = ''out'', m_dataType = Float32, m_storageType = Undetermined,
            m_numElements = 3\<rparr>],
      \<lparr>m_eval = Some 0, native_calls = [GetOutputSchema_call]\<rparr>) \<and>
   eval_GetInputSchema example_engine 0 =
     (Inr [\<lparr>n_name = ''features'', n_dataType = 0, n_storageType = 2, n_numElements = 2\<rparr>],
      0) \<and>
   GetStorageType 2 = Inr Sparse \<and>
   GetInputSchema example_engine example_instance =
     (Inr [\<lparr>m_name = ''features'', m_dataType = Float32, m_storageType = Undetermined,
            m_numElements = 2\<rparr>],
      \<lparr>m_eval = Some 0, native_calls = [GetInputSchema_call]\<rparr>)"
  by (simp add: example_engine_def example_instance_def GetOutputSchema_def
      GetInputSchema_def GetStorageType_def GetDataType_def VariableLayout_new_def called_def)

subsection \<open>Construction\<close>

text \<open>
  Claim C4 does not hold of the code. In the process of the example \<^verbatim>\<open>evaldll.dll\<close> loads and
  does not export \<^verbatim>\<open>GetEvalExtendedF\<close>: the constructor of the \<^verbatim>\<open>float\<close> wrapper calls through
  the null pointer that \<^verbatim>\<open>GetProcAddress\<close> returned, where the claim has a load error. The
  other two failures are as the claim says: a library that is not found and a factory
  that throws both give a \<^verbatim>\<open>CNTKException\<close>.
\<close>

theorem constructor_calls_unresolved_factory:
  "LoadLibrary example_process ''evaldll.dll'' = Some 1 \<and>
   GetProcAddress example_process 1 ''GetEvalExtendedF'' = None \<and>
   IEvaluateModelExtendedManagedF_new example_process = Inl NullFunctionPointerCall \<and>
   IEvaluateModelExtendedManagedD_new example_process =
     Inr \<lparr>m_eval = Some 0, native_calls = []\<rparr> \<and>
   IEvaluateModelExtendedManagedF_new
     (example_process\<lparr>LoadLibrary := (\<lambda>name. None)\<rparr>) =
     Inl (Managed (CNTKException ''Cannot find library: evaldll.dll'')) \<and>
   IEvaluateModelExtendedManagedF_new
     (example_process\<lparr>GetProcAddress :=
        (\<lambda>hModule func. Some (Inl (Std runtime_error ''no device'')))\<rparr>) =
     Inl (Managed (CNTKException ''no device''))"
  by (simp add: example_process_def IEvaluateModelExtendedManagedF_new_def
      IEvaluateModelExtendedManagedD_new_def IEvaluateModelExtendedManaged_new_def)

subsection \<open>Native exceptions in the operations\<close>

text \<open>
  Claim C5 does not hold of the code. The engine of the example throws an
  \<^verbatim>\<open>ExceptionWithCallStack<runtime_error>\<close> from \<^verbatim>\<open>StartForwardEvaluation\<close> for an unknown output
  name: it leaves the wrapper's \<^verbatim>\<open>StartForwardEvaluation\<close> as the native exception it is.
  The same engine's exception from \<^verbatim>\<open>CreateNetwork\<close>, which calls the engine inside a
  \<^verbatim>\<open>try\<close> block, arrives as a managed exception with the message and call stack.
\<close>

theorem StartForwardEvaluation_native_exception:
  "eval_StartForwardEvaluation example_engine 0 [''hidden''] =
     (Inl (Rich runtime_error ''unknown output node'' ''at StartForwardEvaluation''), 0) \<and>
   StartForwardEvaluation example_engine example_instance (Some [''hidden'']) =
     (Inl (NativeUncaught
            (Rich runtime_error ''unknown output node'' ''at StartForwardEvaluation'')),
      \<lparr>m_eval = Some 0, native_calls = [StartForwardEvaluation_call [''hidden'']]\<rparr>) \<and>
   CreateNetwork example_engine example_instance [] =
     (Inl (Managed (CNTKInvalidArgumentException ''empty network description''
                      ''at CreateNetwork'')),
      \<lparr>m_eval = Some 0, native_calls = [CreateNetwork_call []]\<rparr>)"
  by (simp add: example_engine_def example_instance_def StartForwardEvaluation_def
      CreateNetwork_def GetCustomException_def called_def)

subsection \<open>The buffer factory\<close>

lemma ValueBuffer_new_eq:
  "ValueBuffer_new n = (if sint n < 0 then Inl OverflowException else Inr (zero_buffer n))"
  by (simp add: ValueBuffer_new_def new_array_def zero_buffer_def)

lemma has_size_zero_buffer: "0 \<le> sint n \<Longrightarrow> has_size (zero_buffer n) (sint n)"
  by (simp add: has_size_def zero_buffer_def)

lemma CreateBuffers0_loop_eq:
  "\<forall>l\<in>set layouts. 0 \<le> sint (m_numElements l) \<Longrightarrow>
   CreateBuffers0_loop layouts buffers heap =
     (Inr (buffers @ map (\<lambda>l. zero_buffer (m_numElements l)) layouts),
      heap @ map m_numElements layouts)"
  by (induction layouts arbitrary: buffers heap) (simp_all add: ValueBuffer_new_eq)

lemma CreateBuffers_loop_eq:
  "list_all2 (\<lambda>l m. 0 \<le> sint (m_numElements l * m)) layouts lengths \<Longrightarrow>
   CreateBuffers_loop layouts lengths buffers heap =
     (Inr (buffers @ map2 (\<lambda>l m. zero_buffer (m_numElements l * m)) layouts lengths),
      heap @ map2 (\<lambda>l m. m_numElements l * m) layouts lengths)"
proof (induction layouts lengths arbitrary: buffers heap rule: list_all2_induct)
  case Nil
  then show ?case by simp
next
  case (Cons l layouts m lengths)
  then show ?case by (simp add: ValueBuffer_new_eq)
qed

text \<open>The 32-bit product is the product of the integers when that is a non-negative
  \<^verbatim>\<open>int\<close>.\<close>

lemma sint_mult_in_range:
  fixes a b :: int32
  assumes "0 \<le> sint a * sint b" and "sint a * sint b < 2 ^ 31"
  shows "sint (a * b) = sint a * sint b"
proof -
  have "sint (a * b) = signed_take_bit 31 (sint a * sint b)"
    by (simp add: sint_word_ariths)
  also have "\<dots> = sint a * sint b"
    using assms by (intro signed_take_bit_int_eq_self) auto
  finally show ?thesis .
qed

text \<open>
  Claim C6, as the code has it. On a schema of \<open>K\<close> entries with element counts \<open>e\<^sub>i\<close>:
  when no \<open>e\<^sub>i\<close> is negative, \<^verbatim>\<open>CreateBuffers()\<close> returns \<open>K\<close> buffers, the \<open>i\<close>-th of size \<open>e\<^sub>i\<close>;
  with a list \<open>L\<close> of \<open>K\<close> lengths such that every product \<open>e\<^sub>i * L\<^sub>i\<close> is a non-negative
  32-bit \<^verbatim>\<open>int\<close> (at least 0, below \<open>2^31\<close>), \<^verbatim>\<open>CreateBuffers(L)\<close> returns \<open>K\<close> buffers, the
  \<open>i\<close>-th of size \<open>e\<^sub>i * L\<^sub>i\<close>. Each call constructs exactly these buffers.
\<close>

theorem CreateBuffers_sizes:
  "((\<forall>l\<in>set this. 0 \<le> sint (m_numElements l)) \<longrightarrow>
      (\<exists>bs. CreateBuffers0 this heap = (Inr bs, heap @ map m_numElements this) \<and>
            length bs = length this \<and>
            (\<forall>i<length this. has_size (bs ! i) (sint (m_numElements (this ! i)))))) \<and>
   (length maxLengths = length this \<and>
    (\<forall>i<length this. 0 \<le> sint (m_numElements (this ! i)) * sint (maxLengths ! i) \<and>
                      sint (m_numElements (this ! i)) * sint (maxLengths ! i) < 2 ^ 31) \<longrightarrow>
      (\<exists>bs. CreateBuffers this maxLengths heap =
              (Inr bs, heap @ map2 (\<lambda>l m. m_numElements l * m) this maxLengths) \<and>
            length bs = length this \<and>
            (\<forall>i<length this.
               has_size (bs ! i) (sint (m_numElements (this ! i)) * sint (maxLengths ! i)))))"
proof (intro conjI impI)
  assume nonneg: "\<forall>l\<in>set this. 0 \<le> sint (m_numElements l)"
  let ?bs = "map (\<lambda>l. zero_buffer (m_numElements l)) this :: 'a ValueBuffer list"
  have "CreateBuffers0 this heap = (Inr ?bs, heap @ map m_numElements this)"
    by (simp add: CreateBuffers0_def CreateBuffers0_loop_eq [OF nonneg])
  moreover have "\<forall>i<length this. has_size (?bs ! i) (sint (m_numElements (this ! i)))"
    using nonneg by (simp add: has_size_zero_buffer)
  ultimately show "\<exists>bs :: 'a ValueBuffer list.
      CreateBuffers0 this heap = (Inr bs, heap @ map m_numElements this) \<and>
      length bs = length this \<and>
      (\<forall>i<length this. has_size (bs ! i) (sint (m_numElements (this ! i))))"
    by (intro exI [of _ ?bs]) simp
next
  assume a: "length maxLengths = length this \<and>
    (\<forall>i<length this. 0 \<le> sint (m_numElements (this ! i)) * sint (maxLengths ! i) \<and>
                      sint (m_numElements (this ! i)) * sint (maxLengths ! i) < 2 ^ 31)"
  then have len: "length maxLengths = length this" by simp
  have prod: "sint (m_numElements (this ! i) * maxLengths ! i) =
              sint (m_numElements (this ! i)) * sint (maxLengths ! i)"
    if "i < length this" for i
    using a that by (intro sint_mult_in_range) auto
  have all2: "list_all2 (\<lambda>l m. 0 \<le> sint (m_numElements l * m)) this maxLengths"
    using a prod by (simp add: list_all2_conv_all_nth)
  let ?bs = "map2 (\<lambda>l m. zero_buffer (m_numElements l * m)) this maxLengths
               :: 'b ValueBuffer list"
  have "CreateBuffers this maxLengths heap =
          (Inr ?bs, heap @ map2 (\<lambda>l m. m_numElements l * m) this maxLengths)"
    by (simp add: CreateBuffers_def len CreateBuffers_loop_eq [OF all2])
  moreover have "length ?bs = length this" by (simp add: len)
  moreover have "\<forall>i<length this.
      has_size (?bs ! i) (sint (m_numElements (this ! i)) * sint (maxLengths ! i))"
  proof (intro allI impI)
    fix i assume i: "i < length this"
    then have "?bs ! i = zero_buffer (m_numElements (this ! i) * maxLengths ! i)"
      by (simp add: len)
    moreover have "0 \<le> sint (m_numElements (this ! i) * maxLengths ! i)"
      using a i prod by simp
    ultimately show
      "has_size (?bs ! i) (sint (m_numElements (this ! i)) * sint (maxLengths ! i))"
      using has_size_zero_buffer [of "m_numElements (this ! i) * maxLengths ! i"] prod [OF i]
      by simp
  qed
  ultimately show "\<exists>bs :: 'b ValueBuffer list.
      CreateBuffers this maxLengths heap =
        (Inr bs, heap @ map2 (\<lambda>l m. m_numElements l * m) this maxLengths) \<and>
      length bs = length this \<and>
      (\<forall>i<length this.
         has_size (bs ! i) (sint (m_numElements (this ! i)) * sint (maxLengths ! i)))"
    by blast
qed

theorem CreateBuffers_sizes_witness:
  "(0 \<le> sint (m_numElements (layout_of_count 3)) \<and>
    0 \<le> sint (m_numElements (layout_of_count 2))) \<and>
   (\<exists>bs :: int ValueBuffer list.
      CreateBuffers0 [layout_of_count 3, layout_of_count 2] [] = (Inr bs, [3, 2]) \<and>
      length bs = 2 \<and> has_size (bs ! 0) 3 \<and> has_size (bs ! 1) 2) \<and>
   (\<exists>bs :: int ValueBuffer list.
      CreateBuffers [layout_of_count 3, layout_of_count 2] [4, 5] [] = (Inr bs, [12, 10]) \<and>
      length bs = 2 \<and> has_size (bs ! 0) 12 \<and> has_size (bs ! 1) 10)"
proof -
  let ?sch = "[layout_of_count 3, layout_of_count 2]"
  have counts: "m_numElements (layout_of_count 3) = 3" "m_numElements (layout_of_count 2) = 2"
    by (simp_all add: layout_of_count_def VariableLayout_new_def)
  have h1: "\<forall>l\<in>set ?sch. 0 \<le> sint (m_numElements l)"
    by (simp add: counts)
  have h2: "length [4, 5 :: int32] = length ?sch \<and>
    (\<forall>i<length ?sch. 0 \<le> sint (m_numElements (?sch ! i)) * sint ([4, 5 :: int32] ! i) \<and>
       sint (m_numElements (?sch ! i)) * sint ([4, 5 :: int32] ! i) < 2 ^ 31)"
    by (simp add: counts less_Suc_eq numeral_2_eq_2)
  from CreateBuffers_sizes [where 'a = int and 'b = int, of ?sch "[]" "[4, 5]"] h1 h2
  show ?thesis
    by (simp add: counts less_Suc_eq numeral_2_eq_2 all_conj_distrib)
qed

text \<open>
  Claim C6 as stated fails. For one entry of 65536 elements and the length 65536 the
  product computed in 32 bits is 0: the buffer returned has size 0, where the product of
  the two numbers is \<open>2^32\<close>. For an entry whose element count is \<open>-1\<close>, \<^verbatim>\<open>CreateBuffers()\<close>
  raises and returns no buffer.
\<close>

theorem CreateBuffers_product_wraps:
  "(CreateBuffers [layout_of_count 65536] [65536] [] ::
      (managed_exception + int ValueBuffer list) \<times> allocations) =
     (Inr [\<lparr>m_size = 0, m_buffer = [], m_indices = [], m_colIndices = []\<rparr>], [0]) \<and>
   sint (m_numElements (layout_of_count 65536)) * sint (65536 :: int32) = 4294967296 \<and>
   (CreateBuffers0 [layout_of_count (- 1)] [] ::
      (managed_exception + int ValueBuffer list) \<times> allocations) =
     (Inl OverflowException, [])"
  by (simp add: CreateBuffers_def CreateBuffers0_def ValueBuffer_new_def new_array_def
      layout_of_count_def VariableLayout_new_def)

text \<open>
  Claim C7. When the length of \<open>maxLengths\<close> differs from the number of entries of the
  schema, \<^verbatim>\<open>CreateBuffers(maxLengths)\<close> raises the \<^verbatim>\<open>CNTKRuntimeException\<close> with the message
  "Expected max lengths for all variables." and constructs no buffer: the record of the
  constructed buffers is returned unchanged.
\<close>

theorem CreateBuffers_length_mismatch:
  "length maxLengths \<noteq> length this \<Longrightarrow>
   CreateBuffers this maxLengths heap =
     (Inl (CNTKRuntimeException ''Expected max lengths for all variables.'' []), heap)"
  by (simp add: CreateBuffers_def)

theorem CreateBuffers_length_mismatch_witness:
  "length [3 :: int32, 4] \<noteq> length [layout_of_count 5] \<and>
   (CreateBuffers [layout_of_count 5] [3, 4] [] ::
      (managed_exception + int ValueBuffer list) \<times> allocations) =
     (Inl (CNTKRuntimeException ''Expected max lengths for all variables.'' []), [])"
  using CreateBuffers_length_mismatch [of "[3, 4]" "[layout_of_count 5]" "[]"] by simp

subsection \<open>Teardown\<close>

lemma destructor_live:
  "m_eval this \<noteq> None \<Longrightarrow>
   destructor this = this\<lparr>m_eval := None, native_calls := native_calls this @ [Destroy_call]\<rparr>"
  by (simp add: destructor_def finalizer_def)

lemma destructor_disposed: "m_eval this = None \<Longrightarrow> destructor this = this"
  by (simp add: destructor_def)

lemma finalizer_disposed: "m_eval this = None \<Longrightarrow> finalizer this = this"
  by (simp add: finalizer_def)

lemma finalizer_live:
  "m_eval this \<noteq> None \<Longrightarrow>
   finalizer this = this\<lparr>m_eval := None, native_calls := native_calls this @ [Destroy_call]\<rparr>"
  by (simp add: finalizer_def)

lemma teardown_disposed: "m_eval this = None \<Longrightarrow> teardown cs this = this"
proof (induction cs)
  case Nil
  show ?case by simp
next
  case (Cons c cs)
  then show ?case by (cases c) (simp_all add: destructor_disposed finalizer_disposed)
qed

lemma teardown_live:
  assumes "cs \<noteq> []" and "m_eval this \<noteq> None"
  shows "teardown cs this =
           this\<lparr>m_eval := None, native_calls := native_calls this @ [Destroy_call]\<rparr>"
proof -
  from assms(1) obtain c cs' where cs: "cs = c # cs'" by (cases cs) auto
  show ?thesis
    using assms(2)
    by (cases c) (simp_all add: cs destructor_live finalizer_live teardown_disposed)
qed

text \<open>
  Claim C8. Teardown invoked \<open>N \<ge> 1\<close> times, each time through the destructor or the
  finalizer (neither has a failing branch), leaves \<open>m_eval\<close> null and calls the engine's
  \<^verbatim>\<open>Destroy\<close> exactly once when the object still owned its engine, and not at all when it
  was disposed already; it makes no other engine call.
\<close>

theorem teardown_idempotent:
  "0 < length cs \<Longrightarrow>
   m_eval (teardown cs this) = None \<and>
   native_calls (teardown cs this) =
     native_calls this @ (if m_eval this = None then [] else [Destroy_call]) \<and>
   Destroy_count (native_calls (teardown cs this)) =
     Destroy_count (native_calls this) + (if m_eval this = None then 0 else 1)"
proof -
  assume "0 < length cs"
  then have ne: "cs \<noteq> []" by auto
  show ?thesis
  proof (cases "m_eval this = None")
    case True
    then show ?thesis by (simp add: teardown_disposed)
  next
    case False
    from teardown_live [OF ne False] False show ?thesis
      by (simp add: Destroy_count_def)
  qed
qed

theorem teardown_idempotent_witness:
  "0 < length [Dispose, Dispose, Finalize] \<and>
   m_eval (teardown [Dispose, Dispose, Finalize] example_instance) = None \<and>
   native_calls (teardown [Dispose, Dispose, Finalize] example_instance) = [Destroy_call] \<and>
   Destroy_count (native_calls (teardown [Dispose, Dispose, Finalize] example_instance)) = 1"
  using teardown_idempotent [of "[Dispose, Dispose, Finalize]" example_instance]
  by (simp add: example_instance_def Destroy_count_def)

subsection \<open>The storage of a ValueBuffer\<close>

lemma length_store_all: "length (store_all ws xs) = length xs"
  unfolding store_all_def by (induction ws arbitrary: xs) (simp_all add: case_prod_beta)

lemma shape_apply_stores: "shape (apply_stores w b) = shape b"
  by (simp add: shape_def apply_stores_def length_store_all)

lemma shape_written: "map shape (written ws bs) = map shape bs"
  by (induction ws bs rule: written.induct) (simp_all add: shape_apply_stores)

lemma ForwardPass_shapes:
  assumes "ForwardPass eng this inputs outputs = (r, this', inputs', outputs')"
  shows "map_option (map shape) inputs' = map_option (map shape) inputs \<and>
         map_option (map shape) outputs' = map_option (map shape) outputs"
  using assms
  by (auto simp: ForwardPass_def shape_written split: option.splits sum.splits prod.splits)

text \<open>
  Claim C9. A \<^verbatim>\<open>ValueBuffer\<close> constructed with size \<open>n\<close> stores \<open>n\<close> as its size and has three
  arrays of length \<open>n\<close>. \<^verbatim>\<open>ForwardPass\<close>, the one operation that is given buffers, returns
  every input and output buffer with the stored size and the three array lengths it had,
  whether it succeeds or fails; the factory only constructs new buffers.
\<close>

theorem ValueBuffer_storage_fixed:
  "(ValueBuffer_new n = Inr b \<longrightarrow>
      m_size b = n \<and> int (length (m_buffer b)) = sint n \<and>
      int (length (m_indices b)) = sint n \<and> int (length (m_colIndices b)) = sint n) \<and>
   (ForwardPass eng this inputs outputs = (r, this', inputs', outputs') \<longrightarrow>
      map_option (map shape) inputs' = map_option (map shape) inputs \<and>
      map_option (map shape) outputs' = map_option (map shape) outputs)"
proof (intro conjI impI)
  assume "ValueBuffer_new n = Inr b"
  then have "0 \<le> sint n" and "b = zero_buffer n"
    by (auto simp: ValueBuffer_new_eq split: if_splits)
  then show "m_size b = n" "int (length (m_buffer b)) = sint n"
    "int (length (m_indices b)) = sint n" "int (length (m_colIndices b)) = sint n"
    by (simp_all add: zero_buffer_def)
next
  assume fp: "ForwardPass eng this inputs outputs = (r, this', inputs', outputs')"
  from ForwardPass_shapes [OF fp]
  show "map_option (map shape) inputs' = map_option (map shape) inputs"
    "map_option (map shape) outputs' = map_option (map shape) outputs"
    by simp_all
qed

theorem ValueBuffer_storage_fixed_witness:
  "ValueBuffer_new 2 =
     Inr \<lparr>m_size = 2, m_buffer = [0, 0 :: int], m_indices = [0, 0], m_colIndices = [0, 0]\<rparr> \<and>
   int (length [0, 0 :: int]) = sint (2 :: int32) \<and>
   ForwardPass example_engine example_instance
      (Some [\<lparr>m_size = 2, m_buffer = [5, 6], m_indices = [0, 0], m_colIndices = [0, 0]\<rparr>])
      (Some [\<lparr>m_size = 2, m_buffer = [0, 0], m_indices = [0, 0], m_colIndices = [0, 0]\<rparr>]) =
     (Inr (), \<lparr>m_eval = Some 1, native_calls = [ForwardPass_call]\<rparr>,
      Some [\<lparr>m_size = 2, m_buffer = [5, 6], m_indices = [0, 0], m_colIndices = [0, 0]\<rparr>],
      Some [\<lparr>m_size = 2, m_buffer = [7, 0], m_indices = [0, 0], m_colIndices = [0, 0]\<rparr>]) \<and>
   map shape
     [\<lparr>m_size = 2, m_buffer = [7, 0 :: int], m_indices = [0, 0], m_colIndices = [0, 0]\<rparr>] =
   map shape [\<lparr>m_size = 2, m_buffer = [0, 0], m_indices = [0, 0], m_colIndices = [0, 0]\<rparr>]"
proof -
  have new: "ValueBuffer_new 2 =
      Inr \<lparr>m_size = 2, m_buffer = [0, 0 :: int], m_indices = [0, 0], m_colIndices = [0, 0]\<rparr>"
    by (simp add: ValueBuffer_new_def new_array_def numeral_2_eq_2)
  have fp: "ForwardPass example_engine example_instance
      (Some [\<lparr>m_size = 2, m_buffer = [5, 6], m_indices = [0, 0], m_colIndices = [0, 0]\<rparr>])
      (Some [\<lparr>m_size = 2, m_buffer = [0, 0], m_indices = [0, 0], m_colIndices = [0, 0]\<rparr>]) =
     (Inr (), \<lparr>m_eval = Some 1, native_calls = [ForwardPass_call]\<rparr>,
      Some [\<lparr>m_size = 2, m_buffer = [5, 6], m_indices = [0, 0], m_colIndices = [0, 0]\<rparr>],
      Some [\<lparr>m_size = 2, m_buffer = [7, 0], m_indices = [0, 0], m_colIndices = [0, 0]\<rparr>])"
    by (simp add: ForwardPass_def example_engine_def example_instance_def pin_item_def
        InitFrom_def called_def apply_stores_def store_all_def)
  from ValueBuffer_storage_fixed
      [of 2 "\<lparr>m_size = 2, m_buffer = [0, 0 :: int], m_indices = [0, 0], m_colIndices = [0, 0]\<rparr>"
        example_engine example_instance
        "Some [\<lparr>m_size = 2, m_buffer = [5, 6], m_indices = [0, 0], m_colIndices = [0, 0]\<rparr>]"
        "Some [\<lparr>m_size = 2, m_buffer = [0, 0], m_indices = [0, 0], m_colIndices = [0, 0]\<rparr>]"
        "Inr ()" "\<lparr>m_eval = Some 1, native_calls = [ForwardPass_call]\<rparr>"
        "Some [\<lparr>m_size = 2, m_buffer = [5, 6], m_indices = [0, 0], m_colIndices = [0, 0]\<rparr>]"
        "Some [\<lparr>m_size = 2, m_buffer = [7, 0], m_indices = [0, 0], m_colIndices = [0, 0]\<rparr>]"]
    new fp
  show ?thesis by (simp add: shape_def)
qed

subsection \<open>Empty buffers in a forward pass\<close>

lemma pin_item_Inl: "pin_item item = Inl e \<Longrightarrow> e = IndexOutOfRangeException"
  by (auto simp: pin_item_def split: if_splits)

lemma pin_item_empty:
  "m_buffer item = [] \<or> m_indices item = [] \<or> m_colIndices item = [] \<Longrightarrow>
   pin_item item = Inl IndexOutOfRangeException"
  by (auto simp: pin_item_def)

lemma pin_loop_Inl: "pin_loop items refs = Inl e \<Longrightarrow> e = IndexOutOfRangeException"
  by (induction items arbitrary: refs) (auto split: sum.splits dest: pin_item_Inl)

lemma pin_loop_empty:
  "\<exists>b\<in>set items. m_buffer b = [] \<or> m_indices b = [] \<or> m_colIndices b = [] \<Longrightarrow>
   pin_loop items refs = Inl IndexOutOfRangeException"
proof (induction items arbitrary: refs)
  case Nil
  then show ?case by simp
next
  case (Cons item items)
  show ?case
  proof (cases "pin_item item")
    case (Inl e)
    then show ?thesis using pin_item_Inl [OF Inl] by simp
  next
    case (Inr vb)
    then have "\<not> (m_buffer item = [] \<or> m_indices item = [] \<or> m_colIndices item = [])"
      using pin_item_empty [of item] by auto
    with Cons.prems
    have "\<exists>b\<in>set items. m_buffer b = [] \<or> m_indices b = [] \<or> m_colIndices b = []"
      by auto
    from Cons.IH [OF this] Inr show ?thesis by simp
  qed
qed

text \<open>
  Claim C10. On an object that is not disposed, when some buffer of the inputs or of the
  outputs has an empty array (as a buffer of size 0 has), \<^verbatim>\<open>ForwardPass\<close> raises the
  runtime's \<^verbatim>\<open>IndexOutOfRangeException\<close> and the engine is not called: the object, with the
  record of its engine calls, and the buffers are returned as they were.
\<close>

theorem ForwardPass_empty_buffer:
  assumes live: "m_eval this \<noteq> None"
    and empty: "\<exists>b\<in>set (ins @ outs). m_buffer b = [] \<or> m_indices b = [] \<or> m_colIndices b = []"
  shows "ForwardPass eng this (Some ins) (Some outs) =
           (Inl (Managed IndexOutOfRangeException), this, Some ins, Some outs)"
proof (cases "pin_loop ins []")
  case (Inl e)
  with live pin_loop_Inl [OF Inl] show ?thesis
    by (auto simp: ForwardPass_def)
next
  case (Inr stdInputs)
  then have "\<not> (\<exists>b\<in>set ins. m_buffer b = [] \<or> m_indices b = [] \<or> m_colIndices b = [])"
    using pin_loop_empty [of ins "[]"] by auto
  with empty have "\<exists>b\<in>set outs. m_buffer b = [] \<or> m_indices b = [] \<or> m_colIndices b = []"
    by auto
  from pin_loop_empty [OF this, of "[]"] Inr live show ?thesis
    by (auto simp: ForwardPass_def)
qed

theorem ForwardPass_empty_buffer_witness:
  "m_eval example_instance \<noteq> None \<and>
   ForwardPass example_engine example_instance
      (Some [\<lparr>m_size = 2, m_buffer = [5, 6], m_indices = [0, 0], m_colIndices = [0, 0]\<rparr>])
      (Some [\<lparr>m_size = 0, m_buffer = [], m_indices = [], m_colIndices = []\<rparr>]) =
     (Inl (Managed IndexOutOfRangeException), example_instance,
      Some [\<lparr>m_size = 2, m_buffer = [5, 6], m_indices = [0, 0], m_colIndices = [0, 0]\<rparr>],
      Some [\<lparr>m_size = 0, m_buffer = [], m_indices = [], m_colIndices = []\<rparr>])"
proof -
  have live: "m_eval example_instance \<noteq> None" by (simp add: example_instance_def)
  have empty: "\<exists>b\<in>set
      ([\<lparr>m_size = 2, m_buffer = [5, 6 :: int], m_indices = [0, 0], m_colIndices = [0, 0]\<rparr>] @
       [\<lparr>m_size = 0, m_buffer = [], m_indices = [], m_colIndices = []\<rparr>]).
       m_buffer b = [] \<or> m_indices b = [] \<or> m_colIndices b = []"
    by simp
  from ForwardPass_empty_buffer [OF live empty, of example_engine] live show ?thesis by simp
qed

end
